theory Spec2Isabelle
  imports Complex_Main
begin

section \<open>JavaScript values\<close>

text \<open>
  A JavaScript \<open>number\<close> is a finite double (idealised as a real), one of the two
  infinities, or NaN. The other runtime values are \<open>undefined\<close>, \<open>null\<close>, booleans,
  strings, symbols and objects; of an object only one thing matters here, whether
  converting it to a string succeeds (\<open>VObject True\<close>) or throws. A string is the sequence
  of its UTF-8 bytes; \<open>String.prototype.toLowerCase\<close> folds by Unicode and belongs to the
  engine, so the functions that call it take it as the parameter \<open>lower\<close>.
\<close>

datatype jsnum = Finite real | PosInf | NegInf | NaN

datatype jsval =
  VUndefined | VNull | VBool bool | VNum jsnum | VStr string | VSymbol | VObject bool



subsection \<open>Property lookup on plain objects\<close>

text \<open>
  \<open>obj[key]\<close> on an object literal, or on an object built by spreading one, finds the
  object's own property first and otherwise the member of that name the object inherits
  from \<open>Object.prototype\<close>. An inherited member is a function, or for \<open>__proto__\<close> the
  prototype object itself: truthy, and not a number or a string.
\<close>

definition Object_prototype :: "string list" where
  "Object_prototype =
     [''constructor'', ''__defineGetter__'', ''__defineSetter__'', ''hasOwnProperty'',
      ''__lookupGetter__'', ''__lookupSetter__'', ''isPrototypeOf'', ''propertyIsEnumerable'',
      ''toString'', ''valueOf'', ''__proto__'', ''toLocaleString'']"

datatype 'a property = Own 'a | Inherited string | Absent

definition get_property :: "(string \<rightharpoonup> 'a) \<Rightarrow> string \<Rightarrow> 'a property" where
  "get_property obj key = (case obj key of
       Some v \<Rightarrow> Own v
     | None \<Rightarrow> if key \<in> set Object_prototype then Inherited key else Absent)"



text \<open>\<open>a || b\<close> on an optional string: \<open>undefined\<close> and the empty string are falsy.\<close>

definition or_string :: "string option \<Rightarrow> string \<Rightarrow> string" where
  "or_string a b = (case a of None \<Rightarrow> b | Some s \<Rightarrow> if s = [] then b else s)"

text \<open>\<open>a || false\<close> on an optional boolean.\<close>

definition or_false :: "bool option \<Rightarrow> bool" where
  "or_false a = (case a of None \<Rightarrow> False | Some b \<Rightarrow> b)"

section \<open>Data model (types.ts)\<close>

record bounding_box =
  x1 :: jsnum
  y1 :: jsnum
  x2 :: jsnum
  y2 :: jsnum
  width :: jsnum
  height :: jsnum

record detection =
  class_name :: "string option"
  confidence :: "jsnum option"
  bbox :: "bounding_box option"

type_synonym object_count = "(string \<times> int) list"

text \<open>
  The parsed \<open>detection\<close> message; the provider stores the whole message object as the
  camera's DetectionResult. \<open>detections\<close>, \<open>object_counts\<close> and \<open>timestamp\<close> are
  optional on the wire (\<open>WebSocketMessage\<close>).
\<close>

record detection_result =
  camera_id :: string
  detections :: "detection list option"
  object_counts :: "object_count option"
  timestamp :: "string option"

text \<open>
  One entry of \<open>CameraStatus\<close>. At run time an entry built by spreading a missing
  previous entry has only the fields the handler writes, so every field is optional here.
\<close>

record camera_status =
  isStreaming :: "bool option"
  isDetecting :: "bool option"
  lastSeen :: "string option"
  error :: "string option"

datatype message =
    Frame string string "string option"
  | Detection detection_result
  | DetectionStatus string "bool option"
  | Pong
  | Unknown string

section \<open>The camera provider's state (CameraContext)\<close>

record store =
  cameraStatuses :: "string \<rightharpoonup> camera_status"
  detectionResults :: "string \<rightharpoonup> detection_result"
  cameraStreams :: "string \<rightharpoonup> string"
  objectCounts :: "string \<rightharpoonup> object_count"

text \<open>
  \<open>{ ...prev[id] }\<close>: spreading \<open>undefined\<close> gives an object with no fields, and so does
  spreading a member inherited from \<open>Object.prototype\<close> (found when \<open>id\<close> is named like one
  and has no entry), which has no enumerable property of its own.
\<close>

definition spread :: "camera_status option \<Rightarrow> camera_status" where
  "spread p = (case p of
       None \<Rightarrow> \<lparr>isStreaming = None, isDetecting = None, lastSeen = None, error = None\<rparr>
     | Some st \<Rightarrow> st)"

text \<open>
  \<open>handleSocketMessage\<close>, on a parsed message. \<open>now\<close> is \<open>new Date().toISOString()\<close>
  at the time of the call. Each \<open>setX(prev => ...)\<close> is applied to its own state atom.
\<close>

fun handleSocketMessage :: "string \<Rightarrow> message \<Rightarrow> store \<Rightarrow> store" where
  "handleSocketMessage now (Frame cid frame ts) s =
     s\<lparr>cameraStreams := (cameraStreams s)(cid \<mapsto> frame),
       cameraStatuses := (cameraStatuses s)(cid \<mapsto>
          (spread (cameraStatuses s cid))
            \<lparr>isStreaming := Some True, lastSeen := Some (or_string ts now)\<rparr>)\<rparr>"
| "handleSocketMessage now (Detection m) s =
     (let s1 = s\<lparr>detectionResults := (detectionResults s)(camera_id m \<mapsto> m)\<rparr>;
          s2 = (case object_counts m of
                  None \<Rightarrow> s1
                | Some oc \<Rightarrow> s1\<lparr>objectCounts := (objectCounts s1)(camera_id m \<mapsto> oc)\<rparr>)
      in s2\<lparr>cameraStatuses := (cameraStatuses s2)(camera_id m \<mapsto>
          (spread (cameraStatuses s2 (camera_id m)))
            \<lparr>isDetecting := Some True, lastSeen := Some (or_string (timestamp m) now)\<rparr>)\<rparr>)"
| "handleSocketMessage now (DetectionStatus cid enabled) s =
     s\<lparr>cameraStatuses := (cameraStatuses s)(cid \<mapsto>
          (spread (cameraStatuses s cid))\<lparr>isDetecting := Some (or_false enabled)\<rparr>)\<rparr>"
| "handleSocketMessage now Pong s = s"
| "handleSocketMessage now (Unknown t) s = s"

text \<open>Events are folded in arrival order; each carries the clock reading of its arrival.\<close>

fun handleAll :: "(string \<times> message) list \<Rightarrow> store \<Rightarrow> store" where
  "handleAll [] s = s"
| "handleAll ((now, m) # ms) s = handleAll ms (handleSocketMessage now m s)"

subsection \<open>Commands\<close>

text \<open>
  A command awaits the REST call first: \<open>Resolved\<close> continues in the \<open>try\<close> block,
  \<open>Rejected\<close> enters \<open>catch\<close>, which shows a toast and rethrows.
\<close>

datatype api_reply = Resolved | Rejected

datatype toast = ToastSuccess string | ToastError string

record command_result =
  after :: store
  notice :: toast
  rethrown :: bool

definition startCamera :: "api_reply \<Rightarrow> string \<Rightarrow> store \<Rightarrow> command_result" where
  "startCamera reply cameraId s = (case reply of
       Resolved \<Rightarrow>
         \<lparr>after = s\<lparr>cameraStatuses := (cameraStatuses s)(cameraId \<mapsto>
                    (spread (cameraStatuses s cameraId))
                      \<lparr>isStreaming := Some True, error := None\<rparr>)\<rparr>,
          notice = ToastSuccess ''Camera started'', rethrown = False\<rparr>
     | Rejected \<Rightarrow>
         \<lparr>after = s\<lparr>cameraStatuses := (cameraStatuses s)(cameraId \<mapsto>
                    (spread (cameraStatuses s cameraId))
                      \<lparr>isStreaming := Some False, error := Some ''Failed to start camera''\<rparr>)\<rparr>,
          notice = ToastError ''Failed to start camera'', rethrown = True\<rparr>)"

definition stopCamera :: "api_reply \<Rightarrow> string \<Rightarrow> store \<Rightarrow> command_result" where
  "stopCamera reply cameraId s = (case reply of
       Resolved \<Rightarrow>
         \<lparr>after = s\<lparr>cameraStatuses := (cameraStatuses s)(cameraId \<mapsto>
                    (spread (cameraStatuses s cameraId))
                      \<lparr>isStreaming := Some False, isDetecting := Some False, error := None\<rparr>),
                  cameraStreams := (cameraStreams s)(cameraId := None)\<rparr>,
          notice = ToastSuccess ''Camera stopped'', rethrown = False\<rparr>
     | Rejected \<Rightarrow>
         \<lparr>after = s, notice = ToastError ''Failed to stop camera'', rethrown = True\<rparr>)"

definition toggleDetection :: "api_reply \<Rightarrow> string \<Rightarrow> bool \<Rightarrow> store \<Rightarrow> command_result" where
  "toggleDetection reply cameraId enabled s = (case reply of
       Resolved \<Rightarrow>
         (let s1 = s\<lparr>cameraStatuses := (cameraStatuses s)(cameraId \<mapsto>
                      (spread (cameraStatuses s cameraId))\<lparr>isDetecting := Some enabled\<rparr>)\<rparr>;
              s2 = (if \<not> enabled
                    then s1\<lparr>detectionResults := (detectionResults s1)(cameraId := None),
                            objectCounts := (objectCounts s1)(cameraId := None)\<rparr>
                    else s1)
          in \<lparr>after = s2,
              notice = ToastSuccess (if enabled then ''Detection enabled'' else ''Detection disabled''),
              rethrown = False\<rparr>)
     | Rejected \<Rightarrow>
         \<lparr>after = s, notice = ToastError ''Failed to toggle detection'', rethrown = True\<rparr>)"

section \<open>Arithmetic on JavaScript numbers\<close>

text \<open>
  IEEE arithmetic with rounding and overflow of finite results idealised away and the two
  zeros identified: a finite result is the real result; infinities and NaN propagate as
  in JavaScript.
\<close>

fun js_add :: "jsnum \<Rightarrow> jsnum \<Rightarrow> jsnum" where
  "js_add NaN b = NaN"
| "js_add a NaN = NaN"
| "js_add (Finite a) (Finite b) = Finite (a + b)"
| "js_add PosInf NegInf = NaN"
| "js_add NegInf PosInf = NaN"
| "js_add PosInf b = PosInf"
| "js_add NegInf b = NegInf"
| "js_add (Finite a) b = b"

fun js_neg :: "jsnum \<Rightarrow> jsnum" where
  "js_neg NaN = NaN"
| "js_neg PosInf = NegInf"
| "js_neg NegInf = PosInf"
| "js_neg (Finite a) = Finite (- a)"

definition js_sub :: "jsnum \<Rightarrow> jsnum \<Rightarrow> jsnum" where
  "js_sub a b = js_add a (js_neg b)"

text \<open>The sign of an infinite product or quotient.\<close>

definition signed_inf :: "bool \<Rightarrow> jsnum" where
  "signed_inf positive = (if positive then PosInf else NegInf)"

fun js_mul :: "jsnum \<Rightarrow> jsnum \<Rightarrow> jsnum" where
  "js_mul NaN b = NaN"
| "js_mul a NaN = NaN"
| "js_mul (Finite a) (Finite b) = Finite (a * b)"
| "js_mul (Finite a) PosInf = (if a = 0 then NaN else signed_inf (0 < a))"
| "js_mul (Finite a) NegInf = (if a = 0 then NaN else signed_inf (a < 0))"
| "js_mul PosInf (Finite b) = (if b = 0 then NaN else signed_inf (0 < b))"
| "js_mul NegInf (Finite b) = (if b = 0 then NaN else signed_inf (b < 0))"
| "js_mul PosInf PosInf = PosInf"
| "js_mul NegInf NegInf = PosInf"
| "js_mul PosInf NegInf = NegInf"
| "js_mul NegInf PosInf = NegInf"

fun js_div :: "jsnum \<Rightarrow> jsnum \<Rightarrow> jsnum" where
  "js_div NaN b = NaN"
| "js_div a NaN = NaN"
| "js_div (Finite a) (Finite b) =
     (if b = 0 then (if a = 0 then NaN else signed_inf (0 < a)) else Finite (a / b))"
| "js_div (Finite a) b = Finite 0"
| "js_div PosInf (Finite b) = signed_inf (0 \<le> b)"
| "js_div NegInf (Finite b) = signed_inf (b < 0)"
| "js_div a b = NaN"


text \<open>\<open>Math.min\<close> and \<open>Math.max\<close> of two arguments: NaN if either is NaN.\<close>

fun Math_min :: "jsnum \<Rightarrow> jsnum \<Rightarrow> jsnum" where
  "Math_min NaN b = NaN"
| "Math_min a NaN = NaN"
| "Math_min NegInf b = NegInf"
| "Math_min a NegInf = NegInf"
| "Math_min PosInf b = b"
| "Math_min a PosInf = a"
| "Math_min (Finite a) (Finite b) = Finite (min a b)"

fun Math_max :: "jsnum \<Rightarrow> jsnum \<Rightarrow> jsnum" where
  "Math_max NaN b = NaN"
| "Math_max a NaN = NaN"
| "Math_max PosInf b = PosInf"
| "Math_max a PosInf = PosInf"
| "Math_max NegInf b = b"
| "Math_max a NegInf = a"
| "Math_max (Finite a) (Finite b) = Finite (max a b)"

text \<open>\<open>a || d\<close> on a number: 0 and NaN are falsy; on an optional number, so is \<open>undefined\<close>.\<close>

definition or_num :: "jsnum \<Rightarrow> jsnum \<Rightarrow> jsnum" where
  "or_num a d = (if a = Finite 0 \<or> a = NaN then d else a)"

definition or_num_opt :: "jsnum option \<Rightarrow> jsnum \<Rightarrow> jsnum" where
  "or_num_opt a d = (case a of None \<Rightarrow> d | Some n \<Rightarrow> or_num n d)"

section \<open>AudioManager\<close>

record audio_manager =
  audioContext :: bool
  soundBuffers :: "string set"
  enabled :: bool
  masterVolume :: jsnum

text \<open>The singleton as constructed: no context yet, no buffers, enabled, volume 0.7.\<close>

definition new_AudioManager :: audio_manager where
  "new_AudioManager =
     \<lparr>audioContext = False, soundBuffers = {}, enabled = True, masterVolume = Finite (7 / 10)\<rparr>"

text \<open>The names \<open>loadSounds\<close> registers.\<close>

definition soundEffects :: "string list" where
  "soundEffects =
     [''person'', ''car'', ''dog'', ''cat'', ''bird'', ''bicycle'', ''motorcycle'', ''bus'',
      ''truck'', ''click'', ''success'', ''warning'', ''error'', ''multiple_objects'',
      ''high_confidence'']"

text \<open>
  \<open>initialize\<close> runs in a \<open>try\<close> block whose \<open>catch\<close> only logs. Creating the context may
  throw, which leaves the manager as it was; resuming the context may fail after the context
  has been stored, which leaves it without buffers; otherwise the sounds are loaded.
\<close>

datatype init_outcome = ContextFailed | ResumeFailed | Loaded

definition initialize :: "init_outcome \<Rightarrow> audio_manager \<Rightarrow> audio_manager" where
  "initialize outcome m = (case outcome of
       ContextFailed \<Rightarrow> m
     | ResumeFailed \<Rightarrow> m\<lparr>audioContext := True\<rparr>
     | Loaded \<Rightarrow> m\<lparr>audioContext := True, soundBuffers := soundBuffers m \<union> set soundEffects\<rparr>)"

definition setEnabled :: "bool \<Rightarrow> audio_manager \<Rightarrow> audio_manager" where
  "setEnabled e m = m\<lparr>enabled := e\<rparr>"

definition setMasterVolume :: "jsnum \<Rightarrow> audio_manager \<Rightarrow> audio_manager" where
  "setMasterVolume volume m = m\<lparr>masterVolume := Math_max (Finite 0) (Math_min (Finite 1) volume)\<rparr>"

definition getMasterVolume :: "audio_manager \<Rightarrow> jsnum" where
  "getMasterVolume m = masterVolume m"


subsection \<open>playObjectDetectionSound\<close>






text \<open>The operations of the manager, as a caller can invoke them in any order.\<close>

datatype audio_op =
    Initialize init_outcome
  | SetEnabled bool
  | SetMasterVolume jsnum
  | PlaySound string jsnum
  | PlayObjectDetectionSound jsval jsval
  | PlayUISound string
  | PlayDetectionAlert string

fun audio_step :: "audio_op \<Rightarrow> audio_manager \<Rightarrow> audio_manager" where
  "audio_step (Initialize outcome) m = initialize outcome m"
| "audio_step (SetEnabled e) m = setEnabled e m"
| "audio_step (SetMasterVolume v) m = setMasterVolume v m"
| "audio_step (PlaySound n v) m = m"
| "audio_step (PlayObjectDetectionSound t c) m = m"
| "audio_step (PlayUISound a) m = m"
| "audio_step (PlayDetectionAlert t) m = m"

fun audio_run :: "audio_op list \<Rightarrow> audio_manager \<Rightarrow> audio_manager" where
  "audio_run [] m = m"
| "audio_run (op # ops) m = audio_run ops (audio_step op m)"

section \<open>InteractiveCameraStream\<close>

text \<open>
  What \<open>getBoundingClientRect()\<close> returns, the canvas element behind \<open>canvasRef\<close> (its
  layout rectangle and its intrinsic \<open>width\<close> and \<open>height\<close>), and the rectangle of the
  container behind \<open>containerRef\<close>. A ref that is \<open>null\<close> is \<open>None\<close>.
\<close>

record dom_rect =
  rect_left :: jsnum
  rect_top :: jsnum
  rect_width :: jsnum
  rect_height :: jsnum

record canvas =
  canvas_rect :: dom_rect
  canvas_width :: jsnum
  canvas_height :: jsnum

record screen_coords =
  screenX :: jsnum
  screenY :: jsnum
  screenWidth :: jsnum
  screenHeight :: jsnum

definition calculateScreenCoordinates ::
  "canvas option \<Rightarrow> dom_rect option \<Rightarrow> detection \<Rightarrow> jsnum \<Rightarrow> jsnum \<Rightarrow> screen_coords option" where
  "calculateScreenCoordinates cv container d imageWidth imageHeight =
     (case cv of
        None \<Rightarrow> None
      | Some c \<Rightarrow>
     (case container of
        None \<Rightarrow> None
      | Some containerRect \<Rightarrow>
     (case bbox d of
        None \<Rightarrow> None
      | Some b \<Rightarrow>
          let canvasRect = canvas_rect c;
              scaleX = js_div (rect_width canvasRect) imageWidth;
              scaleY = js_div (rect_height canvasRect) imageHeight;
              sx = js_mul (x1 b) scaleX;
              sy = js_mul (y1 b) scaleY;
              sw = js_mul (width b) scaleX;
              sh = js_mul (height b) scaleY
          in Some \<lparr>screenX = js_sub (js_add sx (rect_left canvasRect)) (rect_left containerRect),
                    screenY = js_sub (js_add sy (rect_top canvasRect)) (rect_top containerRect),
                    screenWidth = sw,
                    screenHeight = sh\<rparr>)))"

subsection \<open>The sound cooldown\<close>

definition SOUND_COOLDOWN :: int where
  "SOUND_COOLDOWN = 1000"

text \<open>
  \<open>playDetectionSound\<close> is a callback closed over the \<open>lastSoundTime\<close> value of the
  render that created it: it reads that value and never changes it. When it plays it
  calls the audio manager and queues \<open>setLastSoundTime(prev => ({...prev, [objectType]: now}))\<close>,
  which takes effect for the next render. The result is \<open>None\<close> when the call is dropped,
  otherwise the audio call made and the ledger entry queued. \<open>now\<close> is \<open>Date.now()\<close>.

  \<open>lastSoundTime[objectType] || 0\<close> is the class's own entry, 0 when there is none, and an
  inherited member when the class is named like one and has no entry; \<open>now\<close> minus such a
  member is NaN, which exceeds nothing.
\<close>

record sound_trigger =
  audio_call :: "string \<times> jsnum"
  ledger_write :: "string \<times> int"

definition playDetectionSound ::
  "bool \<Rightarrow> (string \<rightharpoonup> int) \<Rightarrow> int \<Rightarrow> string \<Rightarrow> jsnum \<Rightarrow> sound_trigger option" where
  "playDetectionSound enableSoundAlerts lastSoundTime now objectType conf =
     (if \<not> enableSoundAlerts then None
      else if objectType = [] then None
      else
        (case get_property lastSoundTime objectType of
           Inherited key \<Rightarrow> None
         | found \<Rightarrow>
             let lastPlayTime = (case found of Own t \<Rightarrow> t | _ \<Rightarrow> 0)
             in if now - lastPlayTime > SOUND_COOLDOWN
                then Some \<lparr>audio_call = (objectType, or_num conf (Finite (1 / 2))),
                           ledger_write = (objectType, now)\<rparr>
                else None))"

text \<open>The queued updates applied in order: the \<open>lastSoundTime\<close> of the next render.\<close>

definition commit_ledger :: "sound_trigger list \<Rightarrow> (string \<rightharpoonup> int) \<Rightarrow> (string \<rightharpoonup> int)" where
  "commit_ledger ts lastSoundTime =
     foldl (\<lambda>prev t. prev(fst (ledger_write t) \<mapsto> snd (ledger_write t))) lastSoundTime ts"

subsection \<open>The clickable-detections effect\<close>

text \<open>
  A clickable item is the detection itself with its screen rectangle and an id built from
  the camera id, the detection's index and \<open>Date.now()\<close>.
\<close>

record clickable_detection =
  source :: detection
  item_id :: "string \<times> nat \<times> int"
  coords :: screen_coords

text \<open>
  \<open>array.forEach((x, index) => ...)\<close> for a callback that appends to two lists: the items
  pushed and the sound triggers fired, both in array order.
\<close>

fun forEach_from :: "nat \<Rightarrow> ('a \<Rightarrow> nat \<Rightarrow> 'b list \<times> 'c list) \<Rightarrow> 'a list \<Rightarrow> 'b list \<times> 'c list" where
  "forEach_from i f [] = ([], [])"
| "forEach_from i f (x # xs) =
     (let (a, b) = f x i; (as, bs) = forEach_from (Suc i) f xs in (a @ as, b @ bs))"

text \<open>The body of the effect's \<open>forEach\<close>; \<open>now\<close> is the clock while it handles this detection.\<close>

definition clickable_callback ::
  "bool \<Rightarrow> (string \<rightharpoonup> int) \<Rightarrow> string \<Rightarrow> canvas \<Rightarrow> dom_rect option \<Rightarrow> int \<Rightarrow> detection \<Rightarrow> nat
     \<Rightarrow> clickable_detection list \<times> sound_trigger list" where
  "clickable_callback enableSoundAlerts lastSoundTime cameraId c container now d index =
     (case class_name d of
        None \<Rightarrow> ([], [])
      | Some cn \<Rightarrow>
          if bbox d = None \<or> cn = [] then ([], [])
          else
            (case calculateScreenCoordinates (Some c) container d (canvas_width c) (canvas_height c) of
               None \<Rightarrow> ([], [])
             | Some sc \<Rightarrow>
                 ([\<lparr>source = d, item_id = (cameraId, index, now), coords = sc\<rparr>],
                  if enableSoundAlerts \<and> cn \<noteq> []
                  then (case playDetectionSound enableSoundAlerts lastSoundTime now cn
                               (or_num_opt (confidence d) (Finite (1 / 2))) of
                          None \<Rightarrow> []
                        | Some t \<Rightarrow> [t])
                  else [])))"

text \<open>
  The effect: \<open>set_clickable\<close> is the argument of \<open>setClickableDetections\<close>, \<open>None\<close> when the
  effect returns without calling it; \<open>triggers\<close> are the sounds it played. Every call of
  one pass sees the same \<open>lastSoundTime\<close>.
\<close>

record effect_result =
  set_clickable :: "clickable_detection list option"
  triggers :: "sound_trigger list"

definition clickable_effect ::
  "bool \<Rightarrow> bool \<Rightarrow> (string \<rightharpoonup> int) \<Rightarrow> string \<Rightarrow> detection_result option \<Rightarrow> canvas option
     \<Rightarrow> dom_rect option \<Rightarrow> (nat \<Rightarrow> int) \<Rightarrow> effect_result" where
  "clickable_effect enableObjectClick enableSoundAlerts lastSoundTime cameraId dets cv container clock =
     (case (if enableObjectClick then Option.bind dets detections else None) of
        None \<Rightarrow> \<lparr>set_clickable = Some [], triggers = []\<rparr>
      | Some ds \<Rightarrow>
          (case cv of
             None \<Rightarrow> \<lparr>set_clickable = None, triggers = []\<rparr>
           | Some c \<Rightarrow>
               let (items, played) =
                     forEach_from 0
                       (\<lambda>d i. clickable_callback enableSoundAlerts lastSoundTime cameraId c container
                                 (clock i) d i) ds
               in \<lparr>set_clickable = Some items, triggers = played\<rparr>))"

subsection \<open>drawBoundingBoxes\<close>






section \<open>Initial states and event sequences\<close>

text \<open>The provider's state atoms all start as \<open>{}\<close>.\<close>

definition initial_store :: store where
  "initial_store =
     \<lparr>cameraStatuses = Map.empty, detectionResults = Map.empty,
      cameraStreams = Map.empty, objectCounts = Map.empty\<rparr>"

text \<open>
  A \<open>frame\<close> event for camera \<open>cid\<close>, from the clock reading at its arrival, its image
  and its optional timestamp.
\<close>

definition frame_event :: "string \<Rightarrow> string \<times> string \<times> string option \<Rightarrow> string \<times> message" where
  "frame_event cid e = (case e of (now, frame, ts) \<Rightarrow> (now, Frame cid frame ts))"

text \<open>
  A reachable state used in the examples: camera \<open>cam-1\<close> has received one frame and then
  one detection event with a single person.
\<close>

definition person_detection :: detection where
  "person_detection =
     \<lparr>class_name = Some ''person'', confidence = Some (Finite (92 / 100)),
      bbox = Some \<lparr>x1 = Finite 100, y1 = Finite 50, x2 = Finite 200, y2 = Finite 300,
                   width = Finite 100, height = Finite 250\<rparr>\<rparr>"

definition person_event :: detection_result where
  "person_event =
     \<lparr>camera_id = ''cam-1'', detections = Some [person_detection],
      object_counts = Some [(''person'', 1)], timestamp = Some ''2024-01-01T00:00:01.000Z''\<rparr>"

definition detecting_store :: store where
  "detecting_store =
     handleAll [(''2024-01-01T00:00:00.000Z'', Frame ''cam-1'' ''/9j/4AAQ'' None),
                (''2024-01-01T00:00:01.000Z'', Detection person_event)] initial_store"

section \<open>Vocabulary of the audio properties\<close>

text \<open>A number in the closed interval from 0 to 1.\<close>

definition in_unit_interval :: "jsnum \<Rightarrow> bool" where
  "in_unit_interval v = (case v of Finite r \<Rightarrow> 0 \<le> r \<and> r \<le> 1 | _ \<Rightarrow> False)"

text \<open>An operation that does not pass NaN to \<open>setMasterVolume\<close>.\<close>

fun volume_not_NaN :: "audio_op \<Rightarrow> bool" where
  "volume_not_NaN (SetMasterVolume v) = (v \<noteq> NaN)"
| "volume_not_NaN op = True"




section \<open>Vocabulary of the overlay properties\<close>





text \<open>
  A layout used in the examples: a 640 by 480 canvas displayed at 320 by 240, ten pixels
  right of and twenty below its container's corner; and a DetectionSet of four, the second
  without a class name, the third without a bounding box, the first and last both persons.
\<close>

definition display_canvas :: canvas where
  "display_canvas =
     \<lparr>canvas_rect = \<lparr>rect_left = Finite 10, rect_top = Finite 20,
                      rect_width = Finite 320, rect_height = Finite 240\<rparr>,
      canvas_width = Finite 640, canvas_height = Finite 480\<rparr>"

definition display_container :: dom_rect where
  "display_container =
     \<lparr>rect_left = Finite 0, rect_top = Finite 0, rect_width = Finite 340, rect_height = Finite 280\<rparr>"

definition mixed_detections :: "detection list" where
  "mixed_detections =
     [person_detection,
      person_detection\<lparr>class_name := None\<rparr>,
      person_detection\<lparr>class_name := Some ''car'', bbox := None\<rparr>,
      person_detection\<lparr>class_name := Some ''person'', confidence := Some (Finite (88 / 100))\<rparr>]"

definition mixed_event :: detection_result where
  "mixed_event =
     \<lparr>camera_id = ''cam-1'', detections = Some mixed_detections,
      object_counts = Some [(''person'', 2)], timestamp = Some ''2024-01-01T00:00:01.000Z''\<rparr>"

section \<open>The state store\<close>

subsection \<open>Frame events\<close>

lemma frames_keep_streaming:
  "\<exists>st. cameraStatuses s cid = Some st \<and> isStreaming st = Some True \<and> lastSeen st \<noteq> None \<Longrightarrow>
   \<exists>st. cameraStatuses (handleAll (map (frame_event cid) es) s) cid = Some st
        \<and> isStreaming st = Some True \<and> lastSeen st \<noteq> None"
proof (induction es arbitrary: s)
  case Nil
  then show ?case by simp
next
  case (Cons e es)
  obtain now f ts where e: "e = (now, f, ts)" by (cases e) auto
  have "\<exists>st. cameraStatuses (handleSocketMessage now (Frame cid f ts) s) cid = Some st
        \<and> isStreaming st = Some True \<and> lastSeen st \<noteq> None"
    by simp
  from Cons.IH[OF this] show ?case by (simp add: e frame_event_def)
qed

text \<open>
  C8. A camera identifier with no entry in \<open>cameraStatuses\<close> is accepted by the
  \<open>frame\<close> handler: after the first frame event the camera has an entry with
  \<open>isStreaming = true\<close> and \<open>lastSeen\<close> set (to the event's timestamp, or to the clock
  when the event has none), and this still holds after any further frame events for it.
\<close>

theorem frame_creates_entry:
  assumes "cameraStatuses s cid = None"
  shows "(\<exists>st. cameraStatuses (handleSocketMessage now (Frame cid f ts) s) cid = Some st
            \<and> isStreaming st = Some True \<and> lastSeen st = Some (or_string ts now))
       \<and> (\<exists>st. cameraStatuses (handleAll (map (frame_event cid) ((now, f, ts) # es)) s) cid = Some st
            \<and> isStreaming st = Some True \<and> lastSeen st \<noteq> None)"
proof -
  have first: "\<exists>st. cameraStatuses (handleSocketMessage now (Frame cid f ts) s) cid = Some st
            \<and> isStreaming st = Some True \<and> lastSeen st = Some (or_string ts now)"
    by simp
  then have "\<exists>st. cameraStatuses (handleSocketMessage now (Frame cid f ts) s) cid = Some st
            \<and> isStreaming st = Some True \<and> lastSeen st \<noteq> None"
    by auto
  from frames_keep_streaming[OF this, of es] first show ?thesis
    by (simp add: frame_event_def)
qed

theorem frame_creates_entry_witness:
  "cameraStatuses initial_store ''cam-1'' = None
   \<and> (\<exists>st. cameraStatuses (handleSocketMessage ''2024-01-01T00:00:00.000Z''
               (Frame ''cam-1'' ''/9j/4AAQ'' None) initial_store) ''cam-1'' = Some st
            \<and> isStreaming st = Some True \<and> lastSeen st = Some ''2024-01-01T00:00:00.000Z'')
   \<and> (\<exists>st. cameraStatuses (handleAll (map (frame_event ''cam-1'')
               [(''2024-01-01T00:00:00.000Z'', ''/9j/4AAQ'', None),
                (''2024-01-01T00:00:01.000Z'', ''/9j/4BBR'', Some ''2024-01-01T00:00:00.950Z'')])
               initial_store) ''cam-1'' = Some st
            \<and> isStreaming st = Some True \<and> lastSeen st \<noteq> None)"
  using frame_creates_entry[of initial_store "''cam-1''" "''2024-01-01T00:00:00.000Z''"
      "''/9j/4AAQ''" None
      "[(''2024-01-01T00:00:01.000Z'', ''/9j/4BBR'', Some ''2024-01-01T00:00:00.950Z'')]"]
  by (simp add: initial_store_def or_string_def)

lemma detecting_store_eval:
  "cameraStatuses detecting_store ''cam-1'' =
     Some \<lparr>isStreaming = Some True, isDetecting = Some True,
           lastSeen = Some ''2024-01-01T00:00:01.000Z'', error = None\<rparr>"
  "detectionResults detecting_store ''cam-1'' = Some person_event"
  "objectCounts detecting_store ''cam-1'' = Some [(''person'', 1)]"
  "cameraStreams detecting_store ''cam-1'' = Some ''/9j/4AAQ''"
  by (simp_all add: detecting_store_def initial_store_def person_event_def spread_def or_string_def)

subsection \<open>Detection events\<close>




subsection \<open>Detection status events\<close>

lemma detection_status_sets_isDetecting:
  "\<exists>st. cameraStatuses (handleSocketMessage now (DetectionStatus cid en) s) cid = Some st
       \<and> isDetecting st = Some (or_false en)"
  by simp

lemma detection_status_leaves_data:
  "detectionResults (handleSocketMessage now (DetectionStatus cid en) s) = detectionResults s"
  "objectCounts (handleSocketMessage now (DetectionStatus cid en) s) = objectCounts s"
  "cameraStreams (handleSocketMessage now (DetectionStatus cid en) s) = cameraStreams s"
  by simp_all

text \<open>The sibling path: a successful toggle-off command does clear both.\<close>

lemma toggleDetection_off_clears:
  "detectionResults (after (toggleDetection Resolved cid False s)) cid = None"
  "objectCounts (after (toggleDetection Resolved cid False s)) cid = None"
  "\<exists>st. cameraStatuses (after (toggleDetection Resolved cid False s)) cid = Some st
       \<and> isDetecting st = Some False"
  by (simp_all add: toggleDetection_def)

text \<open>
  C1, the code at the failing input. With a DetectionResult and ObjectCounts stored for
  \<open>cam-1\<close>, a \<open>detection_status\<close> event with \<open>enabled = false\<close> sets \<open>isDetecting\<close> to false
  but clears neither the DetectionResult nor the ObjectCounts.
\<close>

theorem detection_status_off_keeps_detections:
  "Option.bind (cameraStatuses (handleSocketMessage ''2024-01-01T00:00:02.000Z''
        (DetectionStatus ''cam-1'' (Some False)) detecting_store) ''cam-1'') isDetecting = Some False
   \<and> detectionResults (handleSocketMessage ''2024-01-01T00:00:02.000Z''
        (DetectionStatus ''cam-1'' (Some False)) detecting_store) ''cam-1'' = Some person_event
   \<and> objectCounts (handleSocketMessage ''2024-01-01T00:00:02.000Z''
        (DetectionStatus ''cam-1'' (Some False)) detecting_store) ''cam-1'' = Some [(''person'', 1)]"
  by (simp add: detecting_store_eval or_false_def)

subsection \<open>Command acknowledgements\<close>

lemma stopCamera_resolved:
  "\<exists>st. cameraStatuses (after (stopCamera Resolved cid s)) cid = Some st
       \<and> isStreaming st = Some False \<and> isDetecting st = Some False \<and> error st = None"
  "cameraStreams (after (stopCamera Resolved cid s)) cid = None"
  "detectionResults (after (stopCamera Resolved cid s)) = detectionResults s"
  "objectCounts (after (stopCamera Resolved cid s)) = objectCounts s"
  by (simp_all add: stopCamera_def)

lemma stopCamera_rejected:
  "after (stopCamera Rejected cid s) = s"
  "notice (stopCamera Rejected cid s) = ToastError ''Failed to stop camera''"
  "rethrown (stopCamera Rejected cid s)"
  by (simp_all add: stopCamera_def)

text \<open>The sibling path: a failed start command does record the failure on the camera.\<close>

lemma startCamera_rejected:
  "\<exists>st. cameraStatuses (after (startCamera Rejected cid s)) cid = Some st
       \<and> isStreaming st = Some False \<and> error st = Some ''Failed to start camera''"
  by (simp add: startCamera_def)

lemma toggleDetection_rejected:
  "after (toggleDetection Rejected cid en s) = s"
  "notice (toggleDetection Rejected cid en s) = ToastError ''Failed to toggle detection''"
  "rethrown (toggleDetection Rejected cid en s)"
  by (simp_all add: toggleDetection_def)

text \<open>
  C4, the code at the failing input. A successful stop of \<open>cam-1\<close> clears the cached frame
  but keeps the camera's DetectionResult; a failed stop leaves \<open>isStreaming\<close> at its
  pre-command value but writes nothing to the camera's \<open>error\<close> field, where a failed
  start writes \<open>Failed to start camera\<close>.
\<close>

theorem stopCamera_keeps_detections_and_records_no_error:
  "cameraStreams (after (stopCamera Resolved ''cam-1'' detecting_store)) ''cam-1'' = None
   \<and> detectionResults (after (stopCamera Resolved ''cam-1'' detecting_store)) ''cam-1''
       = Some person_event
   \<and> Option.bind (cameraStatuses (after (stopCamera Rejected ''cam-1'' detecting_store)) ''cam-1'')
       isStreaming = Some True
   \<and> Option.bind (cameraStatuses (after (stopCamera Rejected ''cam-1'' detecting_store)) ''cam-1'')
       error = None
   \<and> Option.bind (cameraStatuses (after (startCamera Rejected ''cam-1'' detecting_store)) ''cam-1'')
       error = Some ''Failed to start camera''"
  by (simp add: stopCamera_def startCamera_def detecting_store_eval)

text \<open>
  C7, the code at the failing input. A failed detection toggle for \<open>cam-1\<close> leaves
  \<open>isDetecting\<close> at its pre-toggle value but writes nothing to the camera's \<open>error\<close>
  field, where a failed start writes \<open>Failed to start camera\<close>.
\<close>

theorem toggleDetection_failure_records_no_error:
  "Option.bind (cameraStatuses (after (toggleDetection Rejected ''cam-1'' False detecting_store))
       ''cam-1'') isDetecting = Some True
   \<and> Option.bind (cameraStatuses (after (toggleDetection Rejected ''cam-1'' False detecting_store))
       ''cam-1'') error = None
   \<and> notice (toggleDetection Rejected ''cam-1'' False detecting_store)
       = ToastError ''Failed to toggle detection''
   \<and> Option.bind (cameraStatuses (after (startCamera Rejected ''cam-1'' detecting_store)) ''cam-1'')
       error = Some ''Failed to start camera''"
  by (simp add: toggleDetection_def startCamera_def detecting_store_eval)

section \<open>The audio manager\<close>

subsection \<open>Master volume\<close>

lemma setMasterVolume_clamps:
  "v \<noteq> NaN \<Longrightarrow> in_unit_interval (getMasterVolume (setMasterVolume v m))"
  by (cases v) (auto simp: in_unit_interval_def getMasterVolume_def setMasterVolume_def)

lemma only_setMasterVolume_writes:
  "masterVolume (audio_step op m) = (case op of SetMasterVolume v \<Rightarrow> Math_max (Finite 0) (Math_min (Finite 1) v) | _ \<Rightarrow> masterVolume m)"
  by (cases op)
     (auto simp: initialize_def setEnabled_def setMasterVolume_def split: init_outcome.splits)

lemma masterVolume_invariant:
  "list_all volume_not_NaN ops \<Longrightarrow> in_unit_interval (masterVolume m) \<Longrightarrow>
   in_unit_interval (getMasterVolume (audio_run ops m))"
proof (induction ops arbitrary: m)
  case Nil
  then show ?case by (simp add: getMasterVolume_def)
next
  case (Cons op ops)
  have "in_unit_interval (masterVolume (audio_step op m))"
  proof (cases op)
    case (SetMasterVolume v)
    with Cons.prems have "v \<noteq> NaN" by simp
    from setMasterVolume_clamps[OF this] SetMasterVolume show ?thesis
      by (simp add: getMasterVolume_def)
  qed (use Cons.prems in
      \<open>auto simp: initialize_def setEnabled_def split: init_outcome.splits\<close>)
  with Cons show ?case by simp
qed

lemma initial_volume: "in_unit_interval (getMasterVolume new_AudioManager)"
  by (simp add: in_unit_interval_def getMasterVolume_def new_AudioManager_def)

text \<open>
  C10, the code at the failing input. \<open>Math.min(1, NaN)\<close> and \<open>Math.max(0, NaN)\<close> are
  NaN, so \<open>setMasterVolume(NaN)\<close> on the fresh manager stores NaN, and
  \<open>getMasterVolume\<close> then returns a value outside the interval from 0 to 1.
\<close>

theorem setMasterVolume_NaN_escapes:
  "getMasterVolume (audio_run [SetMasterVolume NaN] new_AudioManager) = NaN
   \<and> \<not> in_unit_interval (getMasterVolume (audio_run [SetMasterVolume NaN] new_AudioManager))"
  by (simp add: getMasterVolume_def setMasterVolume_def in_unit_interval_def)

subsection \<open>Object detection sounds\<close>













section \<open>The detection overlay\<close>

subsection \<open>Coordinate mapping\<close>

text \<open>
  C2. For a detection with bounding box \<open>(x, y, w, h)\<close> in a native image of size
  \<open>(W, H)\<close> shown on a canvas of displayed size \<open>(W', H')\<close>, with both refs mounted, the
  computed rectangle has width \<open>w * W' / W\<close>, height \<open>h * H' / H\<close> and top-left corner
  \<open>(x * W' / W, y * H' / H)\<close> moved by the canvas's position relative to its container.
  Numbers are finite and exact here (the claim is up to floating-point rounding), and the
  image has a width and a height that are not zero.
\<close>

theorem calculateScreenCoordinates_scales:
  assumes "bbox d = Some b"
    and "x1 b = Finite x" and "y1 b = Finite y" and "width b = Finite w" and "height b = Finite h"
    and "rect_width (canvas_rect c) = Finite W'" and "rect_height (canvas_rect c) = Finite H'"
    and "rect_left (canvas_rect c) = Finite cl" and "rect_top (canvas_rect c) = Finite ct"
    and "rect_left container = Finite kl" and "rect_top container = Finite kt"
    and "W \<noteq> 0" and "H \<noteq> 0"
  shows "calculateScreenCoordinates (Some c) (Some container) d (Finite W) (Finite H) =
     Some \<lparr>screenX = Finite (x * W' / W + (cl - kl)),
           screenY = Finite (y * H' / H + (ct - kt)),
           screenWidth = Finite (w * W' / W),
           screenHeight = Finite (h * H' / H)\<rparr>"
  using assms by (simp add: calculateScreenCoordinates_def Let_def js_sub_def)

theorem calculateScreenCoordinates_scales_witness:
  "bbox person_detection = Some \<lparr>x1 = Finite 100, y1 = Finite 50, x2 = Finite 200, y2 = Finite 300,
                                   width = Finite 100, height = Finite 250\<rparr>
   \<and> (640 :: real) \<noteq> 0 \<and> (480 :: real) \<noteq> 0
   \<and> calculateScreenCoordinates (Some display_canvas) (Some display_container) person_detection
         (Finite 640) (Finite 480)
       = Some \<lparr>screenX = Finite 60, screenY = Finite 45,
               screenWidth = Finite 50, screenHeight = Finite 125\<rparr>"
  using calculateScreenCoordinates_scales[of person_detection
      "\<lparr>x1 = Finite 100, y1 = Finite 50, x2 = Finite 200, y2 = Finite 300,
        width = Finite 100, height = Finite 250\<rparr>" 100 50 100 250
      display_canvas 320 240 10 20 display_container 0 0 640 480]
  by (simp add: person_detection_def display_canvas_def display_container_def)

subsection \<open>Detections without a class name or a bounding box\<close>



















subsection \<open>The sound cooldown\<close>

text \<open>
  Between renders the ledger does its work: once a played call's update is committed, a
  call for the same class within the window is dropped, and one after it plays.
\<close>

lemma cooldown_drops_within_window:
  "playDetectionSound sa L t1 k c1 = Some tr \<Longrightarrow> t2 - t1 \<le> SOUND_COOLDOWN \<Longrightarrow>
   playDetectionSound sa (commit_ledger [tr] L) t2 k c2 = None"
  by (auto simp: playDetectionSound_def commit_ledger_def get_property_def Let_def
      split: if_splits property.splits option.splits)

lemma cooldown_plays_after_window:
  "k \<noteq> [] \<Longrightarrow> L k = Some t1 \<Longrightarrow> SOUND_COOLDOWN < t2 - t1 \<Longrightarrow>
   playDetectionSound True L t2 k c =
     Some \<lparr>audio_call = (k, or_num c (Finite (1 / 2))), ledger_write = (k, t2)\<rparr>"
  by (simp add: playDetectionSound_def get_property_def)

text \<open>
  C3, the code at the failing input. One detection event with two persons, sound alerts
  on, nothing played before: both calls of the pass read the same \<open>lastSoundTime\<close>, since
  \<open>setLastSoundTime\<close> only takes effect for the next render, so the person cue is played
  twice at the same clock reading.
\<close>

theorem same_pass_plays_twice:
  "map audio_call (triggers (clickable_effect True True Map.empty ''cam-1'' (Some mixed_event)
        (Some display_canvas) (Some display_container) (\<lambda>i. 1704067201000)))
     = [(''person'', Finite (92 / 100)), (''person'', Finite (88 / 100))]
   \<and> map ledger_write (triggers (clickable_effect True True Map.empty ''cam-1'' (Some mixed_event)
        (Some display_canvas) (Some display_container) (\<lambda>i. 1704067201000)))
     = [(''person'', 1704067201000), (''person'', 1704067201000)]"
  by (simp add: clickable_effect_def mixed_event_def mixed_detections_def person_detection_def
      clickable_callback_def calculateScreenCoordinates_def display_canvas_def
      display_container_def playDetectionSound_def SOUND_COOLDOWN_def or_num_opt_def or_num_def
      Let_def js_sub_def get_property_def Object_prototype_def)

end
